theory Spec2Isabelle
  imports Main "HOL-Library.AList"
begin

section \<open>Python values and built-ins used by spotdl/utils/metadata.py\<close>

text \<open>
  Tag values are dynamically typed in the source. A Python \<open>str\<close> is a list of code
  points; the model keeps the code points below 256 (\<open>char\<close>), so \<open>"\xa9nam"\<close> is
  \<open>CHR 0xA9 # ''nam''\<close>. An ID3 frame is an object with a \<open>text\<close> attribute (text
  frames, USLT, COMM) or a \<open>url\<close> attribute (WOAS); an APIC frame carries a picture.
\<close>

datatype picture = Picture (ptype: nat) (desc: string) (mime: string) (pdata: string)

datatype pyval =
    VNone
  | VBool bool
  | VInt int
  | VStr string
  | VBytes string
  | VList "pyval list"
  | VTuple "pyval list"
  | VTextFrame pyval
  | VUrlFrame string
  | VPicFrame picture

datatype error =
    MetadataError
  | OSError
  | LoadError
  | IndexError
  | TypeError
  | ValueError
  | AttributeError
  | KeyError
  | UnicodeDecodeError

type_synonym 'a result = "error + 'a"

definition bind_r :: "'a result \<Rightarrow> ('a \<Rightarrow> 'b result) \<Rightarrow> 'b result" where
  "bind_r r f = (case r of Inl e \<Rightarrow> Inl e | Inr x \<Rightarrow> f x)"

text \<open>Truth value of \<open>if val\<close>.\<close>

fun truthy :: "pyval \<Rightarrow> bool" where
  "truthy VNone = False"
| "truthy (VBool b) = b"
| "truthy (VInt n) = (n \<noteq> 0)"
| "truthy (VStr s) = (s \<noteq> [])"
| "truthy (VBytes s) = (s \<noteq> [])"
| "truthy (VList xs) = (xs \<noteq> [])"
| "truthy (VTuple xs) = (xs \<noteq> [])"
| "truthy (VTextFrame t) = True"
| "truthy (VUrlFrame u) = True"
| "truthy (VPicFrame p) = True"

text \<open>\<open>val[i]\<close> for a non-negative literal index \<open>i\<close>.\<close>

fun getitem :: "pyval \<Rightarrow> nat \<Rightarrow> pyval result" where
  "getitem (VList xs) i = (if i < length xs then Inr (xs ! i) else Inl IndexError)"
| "getitem (VTuple xs) i = (if i < length xs then Inr (xs ! i) else Inl IndexError)"
| "getitem (VStr s) i = (if i < length s then Inr (VStr [s ! i]) else Inl IndexError)"
| "getitem (VBytes s) i = (if i < length s then Inr (VInt (int (of_char (s ! i) :: nat))) else Inl IndexError)"
| "getitem v i = Inl TypeError"

text \<open>\<open>len(val)\<close>.\<close>

fun py_len :: "pyval \<Rightarrow> nat result" where
  "py_len (VList xs) = Inr (length xs)"
| "py_len (VTuple xs) = Inr (length xs)"
| "py_len (VStr s) = Inr (length s)"
| "py_len (VBytes s) = Inr (length s)"
| "py_len v = Inl TypeError"

text \<open>\<open>val[0] if len(val) == 1 else val\<close>.\<close>

definition unwrap1 :: "pyval \<Rightarrow> pyval result" where
  "unwrap1 v = bind_r (py_len v) (\<lambda>n. if n = 1 then getitem v 0 else Inr v)"

subsection \<open>\<open>str(n)\<close>, \<open>s.zfill(w)\<close>, \<open>int(s)\<close>, \<open>s.split("/")\<close>\<close>

definition digit_char :: "nat \<Rightarrow> char" where
  "digit_char d = char_of (48 + d)"

fun digits_of :: "nat \<Rightarrow> string" where
  "digits_of n = (if n < 10 then [digit_char n] else digits_of (n div 10) @ [digit_char (n mod 10)])"

declare digits_of.simps [simp del]

definition py_str :: "int \<Rightarrow> string" where
  "py_str i = (if i < 0 then CHR ''-'' # digits_of (nat (- i)) else digits_of (nat i))"

text \<open>\<open>str.zfill\<close>: a leading sign stays in front of the padding.\<close>

definition zfill :: "string \<Rightarrow> nat \<Rightarrow> string" where
  "zfill s w =
     (if w \<le> length s then s
      else case s of
             c # r \<Rightarrow> (if c = CHR ''+'' \<or> c = CHR ''-''
                       then c # replicate (w - length s) CHR ''0'' @ r
                       else replicate (w - length s) CHR ''0'' @ s)
           | [] \<Rightarrow> replicate w CHR ''0'')"

definition is_digit :: "char \<Rightarrow> bool" where
  "is_digit c = (48 \<le> (of_char c :: nat) \<and> (of_char c :: nat) \<le> 57)"

definition is_space :: "char \<Rightarrow> bool" where
  "is_space c = (c = CHR '' '' \<or> (9 \<le> (of_char c :: nat) \<and> (of_char c :: nat) \<le> 13)
                 \<or> (28 \<le> (of_char c :: nat) \<and> (of_char c :: nat) \<le> 31))"

definition strip :: "string \<Rightarrow> string" where
  "strip s = rev (dropWhile is_space (rev (dropWhile is_space s)))"

text \<open>
  The digits of an integer literal: single underscores are allowed between digits.
  \<open>lit_ok prev s\<close>: \<open>prev\<close> says whether the previous character was a digit.
\<close>

fun lit_ok :: "bool \<Rightarrow> string \<Rightarrow> bool" where
  "lit_ok prev [] = prev"
| "lit_ok prev (c # r) =
     (if is_digit c then lit_ok True r
      else if c = CHR ''_'' \<and> prev then (r \<noteq> [] \<and> is_digit (hd r) \<and> lit_ok False r)
      else False)"

definition digit_val :: "char \<Rightarrow> nat" where
  "digit_val c = (of_char c :: nat) - 48"

definition lit_val :: "string \<Rightarrow> nat" where
  "lit_val s = foldl (\<lambda>acc c. 10 * acc + digit_val c) 0 (filter is_digit s)"

text \<open>\<open>int(s)\<close> on a string, base 10, ASCII digits: \<open>None\<close> is Python's ValueError.\<close>

definition py_int :: "string \<Rightarrow> int option" where
  "py_int s =
     (case strip s of
        [] \<Rightarrow> None
      | c # r \<Rightarrow>
          if c = CHR ''-'' then (if lit_ok False r then Some (- int (lit_val r)) else None)
          else if c = CHR ''+'' then (if lit_ok False r then Some (int (lit_val r)) else None)
          else if lit_ok False (c # r) then Some (int (lit_val (c # r))) else None)"

text \<open>\<open>s.split(sep)\<close> for a one-character separator.\<close>

fun split_on :: "char \<Rightarrow> string \<Rightarrow> string list" where
  "split_on sep [] = [[]]"
| "split_on sep (c # r) =
     (if c = sep then [] # split_on sep r
      else (case split_on sep r of p # ps \<Rightarrow> (c # p) # ps | [] \<Rightarrow> [[c]]))"

subsection \<open>UTF-8 of the code points below 256\<close>

definition utf8_encode :: "string \<Rightarrow> string" where
  "utf8_encode s =
     concat (map (\<lambda>c. let n = (of_char c :: nat) in
                        if n < 128 then [c]
                        else [char_of (192 + n div 64), char_of (128 + n mod 64)]) s)"

text \<open>
  Decoding fails with UnicodeDecodeError on bytes that are not UTF-8; a sequence that
  encodes a code point above 255 has no \<open>char\<close> and is reported the same way.
\<close>

fun utf8_decode :: "string \<Rightarrow> string option" where
  "utf8_decode [] = Some []"
| "utf8_decode [b] =
     (if (of_char b :: nat) < 128 then Some [b] else None)"
| "utf8_decode (b # b2 # r) =
     (let n = (of_char b :: nat); m = (of_char b2 :: nat) in
      if n < 128 then map_option ((#) b) (utf8_decode (b2 # r))
      else if (n = 194 \<or> n = 195) \<and> 128 \<le> m \<and> m < 192
           then map_option ((#) (char_of ((n - 192) * 64 + (m - 128)))) (utf8_decode r)
      else None)"

section \<open>The tag tables\<close>

definition cp :: char where
  "cp = CHR 0xA9"

definition M4A_TAG_PRESET :: "(string \<times> string) list" where
  "M4A_TAG_PRESET =
    [(''album'', cp # ''alb''),
     (''artist'', cp # ''ART''),
     (''date'', cp # ''day''),
     (''title'', cp # ''nam''),
     (''year'', cp # ''day''),
     (''originaldate'', ''purd''),
     (''comment'', cp # ''cmt''),
     (''group'', cp # ''grp''),
     (''writer'', cp # ''wrt''),
     (''genre'', cp # ''gen''),
     (''tracknumber'', ''trkn''),
     (''albumartist'', ''aART''),
     (''discnumber'', ''disk''),
     (''cpil'', ''cpil''),
     (''albumart'', ''covr''),
     (''encodedby'', cp # ''too''),
     (''copyright'', ''cprt''),
     (''tempo'', ''tmpo''),
     (''lyrics'', cp # ''lyr''),
     (''explicit'', ''rtng''),
     (''woas'', ''----:spotdl:WOAS'')]"

definition MP3_TAG_PRESET :: "(string \<times> string) list" where
  "MP3_TAG_PRESET =
    [(''album'', ''TALB''),
     (''artist'', ''TPE1''),
     (''date'', ''TDRC''),
     (''title'', ''TIT2''),
     (''year'', ''TDRC''),
     (''originaldate'', ''TDOR''),
     (''comment'', ''COMM::XXX''),
     (''group'', ''TIT1''),
     (''writer'', ''TEXT''),
     (''genre'', ''TCON''),
     (''tracknumber'', ''TRCK''),
     (''albumartist'', ''TPE2''),
     (''discnumber'', ''TPOS''),
     (''cpil'', ''TCMP''),
     (''albumart'', ''APIC''),
     (''encodedby'', ''TENC''),
     (''copyright'', ''TCOP''),
     (''tempo'', ''TBPM''),
     (''lyrics'', ''USLT::XXX''),
     (''woas'', ''WOAS''),
     (''explicit'', ''NULL'')]"

text \<open>\<open>TAG_PRESET = {key: key for key in M4A_TAG_PRESET}\<close>\<close>

definition TAG_PRESET :: "(string \<times> string) list" where
  "TAG_PRESET = map (\<lambda>(key, v). (key, key)) M4A_TAG_PRESET"

definition TAG_TO_SONG :: "(string \<times> string) list" where
  "TAG_TO_SONG =
    [(''title'', ''name''),
     (''artist'', ''artists''),
     (''album'', ''album_name''),
     (''albumartist'', ''album_artist''),
     (''genre'', ''genres''),
     (''discnumber'', ''disc_number''),
     (''year'', ''year''),
     (''date'', ''date''),
     (''tracknumber'', ''track_number''),
     (''encodedby'', ''publisher''),
     (''woas'', ''url''),
     (''copyright'', ''copyright_text''),
     (''lyrics'', ''lyrics'')]"

text \<open>\<open>table[key]\<close> on a key the table has; the empty string stands for KeyError,
  which no lookup of the source can reach (every key it uses is a literal of the table).\<close>

definition preset :: "(string \<times> string) list \<Rightarrow> string \<Rightarrow> string" where
  "preset table key = (case map_of table key of Some v \<Rightarrow> v | None \<Rightarrow> [])"

section \<open>The song record and the container handle\<close>

text \<open>The attributes of \<open>spotdl.types.Song\<close> that this module reads.\<close>

record song =
  name :: string
  artists :: "string list"
  artist :: string
  album_name :: "string option"
  genres :: "string list"
  date :: string
  publisher :: string
  copyright_text :: "string option"
  lyrics :: "string option"
  download_url :: "string option"
  disc_number :: int
  disc_count :: int
  track_number :: int
  tracks_count :: int
  url :: string
  explicit :: bool
  cover_url :: "string option"

text \<open>\<open>if x:\<close> on an optional string: \<open>None\<close> and \<open>""\<close> are false.\<close>

definition opt_truthy :: "string option \<Rightarrow> bool" where
  "opt_truthy x = (case x of None \<Rightarrow> False | Some s \<Rightarrow> s \<noteq> [])"

definition opt_val :: "string option \<Rightarrow> pyval" where
  "opt_val x = (case x of None \<Rightarrow> VNone | Some s \<Rightarrow> VStr s)"

text \<open>
  A handle is what \<open>mutagen.File\<close> returns: the tags by native key, in an association
  list, and the picture blocks of a FLAC file.
\<close>

record handle =
  tags :: "(string \<times> pyval) list"
  pictures :: "picture list"

text \<open>
  What the tag library keeps for an assigned value, as a later load of the saved file
  returns it. Vorbis comments hold a list of strings and wrap a bare value in a list.
  MP4 atoms come back as lists: a bare text or free-form value as a one-element list,
  a tuple of integers as the list of the integers.
\<close>

definition vorbis_value :: "pyval \<Rightarrow> pyval" where
  "vorbis_value v = (case v of VList xs \<Rightarrow> VList xs | _ \<Rightarrow> VList [v])"

definition mp4_value :: "pyval \<Rightarrow> pyval" where
  "mp4_value v = (case v of VList xs \<Rightarrow> VList xs | VTuple xs \<Rightarrow> VList xs | _ \<Rightarrow> VList [v])"

text \<open>
  The easy view of an MP3 file (\<open>easy=True\<close>) takes the keys below and keeps a text
  frame under the frame's own identifier; any other key is a KeyError.
\<close>

definition EASY_ID3 :: "(string \<times> string) list" where
  "EASY_ID3 =
    [(''album'', ''TALB''),
     (''artist'', ''TPE1''),
     (''date'', ''TDRC''),
     (''title'', ''TIT2''),
     (''originaldate'', ''TDOR''),
     (''genre'', ''TCON''),
     (''tracknumber'', ''TRCK''),
     (''albumartist'', ''TPE2''),
     (''discnumber'', ''TPOS''),
     (''encodedby'', ''TENC''),
     (''copyright'', ''TCOP'')]"

text \<open>\<open>audio_file[key] = value\<close> on the handle of a file with extension \<open>encoding\<close>.\<close>

definition setitem :: "string \<Rightarrow> string \<Rightarrow> pyval \<Rightarrow> handle \<Rightarrow> handle result" where
  "setitem encoding key v h =
     (if encoding = ''m4a'' then Inr (h\<lparr>tags := AList.update key (mp4_value v) (tags h)\<rparr>)
      else if encoding = ''mp3'' then
        (case map_of EASY_ID3 key of
           None \<Rightarrow> Inl KeyError
         | Some frame_id \<Rightarrow>
             Inr (h\<lparr>tags := AList.update frame_id (VTextFrame (vorbis_value v)) (tags h)\<rparr>))
      else Inr (h\<lparr>tags := AList.update key (vorbis_value v) (tags h)\<rparr>))"

text \<open>\<open>audio_file.add(frame)\<close> on an ID3 handle: the frame replaces the one with its key.\<close>

definition id3_add :: "string \<times> pyval \<Rightarrow> handle \<Rightarrow> handle" where
  "id3_add kf h = h\<lparr>tags := AList.update (fst kf) (snd kf) (tags h)\<rparr>"

fun setitems :: "string \<Rightarrow> (string \<times> pyval) list \<Rightarrow> handle \<Rightarrow> handle result" where
  "setitems encoding [] h = Inr h"
| "setitems encoding ((key, v) # kvs) h = bind_r (setitem encoding key v h) (setitems encoding kvs)"

section \<open>embed\_metadata\<close>

text \<open>The file under the path: what \<open>path.exists()\<close> and \<open>File(...)\<close> find there.\<close>

datatype file_state =
    Missing
  | Unreadable
  | Unrecognized
  | Audio handle

text \<open>The assignments \<open>audio_file[...] = ...\<close> of \<open>embed_metadata\<close>, in source order.\<close>

definition assignments :: "song \<Rightarrow> string \<Rightarrow> (string \<times> pyval) list" where
  "assignments s encoding =
     (let tag_preset = (if encoding \<noteq> ''m4a'' then TAG_PRESET else M4A_TAG_PRESET) in
      [(preset tag_preset ''artist'', VList (map VStr (artists s))),
       (preset tag_preset ''albumartist'', VStr (artist s)),
       (preset tag_preset ''title'', VStr (name s)),
       (preset tag_preset ''date'', VStr (date s)),
       (preset tag_preset ''originaldate'', VStr (date s)),
       (preset tag_preset ''encodedby'', VStr (publisher s))]
      @ (if opt_truthy (album_name s)
         then [(preset tag_preset ''album'', opt_val (album_name s))] else [])
      @ (if length (genres s) > 0
         then [(preset tag_preset ''genre'', VList (map VStr (genres s)))] else [])
      @ (if opt_truthy (copyright_text s)
         then [(preset tag_preset ''copyright'', opt_val (copyright_text s))] else [])
      @ (if opt_truthy (lyrics s) \<and> encoding \<noteq> ''mp3''
         then [(preset tag_preset ''lyrics'', opt_val (lyrics s))] else [])
      @ (if opt_truthy (download_url s) \<and> encoding \<noteq> ''mp3''
         then [(preset tag_preset ''comment'', opt_val (download_url s))] else [])
      @ (if encoding \<in> set [''flac'', ''ogg'', ''opus''] then
           (let zfilled_disc_number = zfill (py_str (disc_number s)) (length (py_str (disc_count s)));
                zfilled_track_number = zfill (py_str (track_number s)) (length (py_str (tracks_count s)))
            in [(preset tag_preset ''discnumber'', VStr zfilled_disc_number),
                (preset tag_preset ''tracknumber'', VStr zfilled_track_number),
                (preset tag_preset ''woas'', VStr (url s))])
         else if encoding = ''m4a'' then
           [(preset tag_preset ''discnumber'', VList [VTuple [VInt (disc_number s), VInt (disc_count s)]]),
            (preset tag_preset ''tracknumber'', VList [VTuple [VInt (track_number s), VInt (tracks_count s)]]),
            (preset tag_preset ''explicit'', VTuple [VInt (if explicit s = True then 4 else 2)]),
            (preset tag_preset ''woas'', VBytes (utf8_encode (url s)))]
         else if encoding = ''mp3'' then
           [(''tracknumber'', VStr (py_str (track_number s) @ ''/'' @ py_str (tracks_count s))),
            (''discnumber'', VStr (py_str (disc_number s) @ ''/'' @ py_str (disc_count s)))]
         else []))"

text \<open>
  The frames of the second MP3 phase, with the keys the ID3 handle files them under:
  the text of a COMM frame is a list, the text of a USLT frame a single string.
\<close>

definition id3_frames :: "song \<Rightarrow> (string \<times> pyval) list" where
  "id3_frames s =
     [(''WOAS'', VUrlFrame (url s))]
     @ (if opt_truthy (lyrics s) then [(''USLT::XXX'', VTextFrame (opt_val (lyrics s)))] else [])
     @ (if opt_truthy (download_url s)
        then [(''COMM::XXX'', VTextFrame (VList [opt_val (download_url s)]))] else [])"

text \<open>
  \<open>embed_metadata\<close> returns nothing; the model returns the outcome and the file as it
  is afterwards. An exception leaves the file as the last \<open>save()\<close> wrote it.
\<close>

definition embed_metadata :: "file_state \<Rightarrow> song \<Rightarrow> string \<Rightarrow> unit result \<times> file_state" where
  "embed_metadata file s suffix =
     (let encoding = drop 1 suffix in
      case file of
        Audio audio_file \<Rightarrow>
          (case setitems encoding (assignments s encoding) audio_file of
             Inl e \<Rightarrow> (Inl e, file)
           | Inr written \<Rightarrow>
               if encoding = ''mp3''
               then (Inr (), Audio (fold id3_add (id3_frames s) written))
               else (Inr (), Audio written))
      | _ \<Rightarrow> (Inl MetadataError, file))"

section \<open>embed\_cover\<close>

text \<open>
  The two collaborators are parameters: \<open>fetch\<close> is \<open>requests.get(url, timeout=10).content\<close>
  (\<open>None\<close> when it raises), \<open>b64_picture\<close> is the base64 text of the written picture
  block.
\<close>

definition embed_cover ::
  "(string \<Rightarrow> string option) \<Rightarrow> (picture \<Rightarrow> string) \<Rightarrow> handle \<Rightarrow> song \<Rightarrow> string \<Rightarrow> handle" where
  "embed_cover fetch b64_picture audio_file s encoding =
     (if \<not> opt_truthy (cover_url s) then audio_file
      else case fetch (case cover_url s of Some u \<Rightarrow> u | None \<Rightarrow> []) of
             None \<Rightarrow> audio_file
           | Some cover_data \<Rightarrow>
               if encoding \<in> set [''flac'', ''ogg'', ''opus''] then
                 (let pic = Picture 3 ''Cover'' ''image/jpeg'' cover_data in
                  if encoding \<in> set [''ogg'', ''opus''] then
                    audio_file\<lparr>tags := AList.update ''metadata_block_picture''
                                          (VList [VStr (b64_picture pic)]) (tags audio_file)\<rparr>
                  else if encoding = ''flac'' then
                    audio_file\<lparr>pictures := pictures audio_file @ [pic]\<rparr>
                  else audio_file)
               else if encoding = ''m4a'' then
                 audio_file\<lparr>tags := AList.update (preset M4A_TAG_PRESET ''albumart'')
                                       (VList [VBytes cover_data]) (tags audio_file)\<rparr>
               else if encoding = ''mp3'' then
                 audio_file\<lparr>tags := AList.update ''APIC''
                                       (VPicFrame (Picture 3 ''Cover'' ''image/jpeg'' cover_data))
                                       (tags audio_file)\<rparr>
               else audio_file)"

section \<open>get\_file\_metadata\<close>

text \<open>\<open>val.text\<close> and \<open>val.url\<close>: only frames have the attributes.\<close>

fun attr_text :: "pyval \<Rightarrow> pyval result" where
  "attr_text (VTextFrame t) = Inr t"
| "attr_text v = Inl AttributeError"

fun attr_url :: "pyval \<Rightarrow> pyval result" where
  "attr_url (VUrlFrame u) = Inr (VStr u)"
| "attr_url v = Inl AttributeError"

text \<open>
  \<open>str(v)\<close> of the values a tag's first element can be; the printed form of a
  container or a frame is not modelled (TypeError stands for it).
\<close>

fun str_of :: "pyval \<Rightarrow> string result" where
  "str_of (VStr s) = Inr s"
| "str_of (VInt n) = Inr (py_str n)"
| "str_of (VBool b) = Inr (if b then ''True'' else ''False'')"
| "str_of VNone = Inr ''None''"
| "str_of v = Inl TypeError"

text \<open>\<open>int(v)\<close>.\<close>

fun int_of :: "pyval \<Rightarrow> int result" where
  "int_of (VStr s) = (case py_int s of None \<Rightarrow> Inl ValueError | Some n \<Rightarrow> Inr n)"
| "int_of (VInt n) = Inr n"
| "int_of (VBool b) = Inr (if b then 1 else 0)"
| "int_of v = Inl TypeError"

text \<open>\<open>int(str(v)[:4])\<close>\<close>

definition year_of :: "pyval \<Rightarrow> pyval result" where
  "year_of v = bind_r (str_of v) (\<lambda>s. bind_r (int_of (VStr (take 4 s))) (\<lambda>n. Inr (VInt n)))"

text \<open>\<open>v.decode("utf-8")\<close>: only bytes have the method.\<close>

fun decode_utf8 :: "pyval \<Rightarrow> pyval result" where
  "decode_utf8 (VBytes b) = (case utf8_decode b of None \<Rightarrow> Inl UnicodeDecodeError | Some s \<Rightarrow> Inr (VStr s))"
| "decode_utf8 v = Inl AttributeError"

text \<open>\<open>v.split("/")\<close>: only a string has the method.\<close>

fun split_slash :: "pyval \<Rightarrow> string list result" where
  "split_slash (VStr s) = Inr (split_on CHR ''/'' s)"
| "split_slash v = Inl AttributeError"

type_synonym song_meta = "(string \<times> pyval) list"

text \<open>The tail of the three decoders: \<open>meta_key = TAG_TO_SONG.get(key)\<close> and what follows.\<close>

definition store_unwrapped :: "string \<Rightarrow> pyval result \<Rightarrow> song_meta \<Rightarrow> song_meta result" where
  "store_unwrapped key container song_meta =
     (case map_of TAG_TO_SONG key of
        None \<Rightarrow> Inr song_meta
      | Some meta_key \<Rightarrow>
          bind_r container (\<lambda>c. bind_r (unwrap1 c) (\<lambda>v. Inr (AList.update meta_key v song_meta))))"

text \<open>The number and count of \<open>"3/12"\<close>, or the raw text when the split has not two parts.\<close>

definition split_number :: "string \<Rightarrow> string \<Rightarrow> pyval \<Rightarrow> song_meta \<Rightarrow> song_meta result" where
  "split_number number_key count_key v song_meta =
     bind_r (attr_text v) (\<lambda>text.
     bind_r (getitem text 0) (\<lambda>t0.
     bind_r (split_slash t0) (\<lambda>count.
       if length count = 2 then
         bind_r (int_of (VStr (count ! 0))) (\<lambda>n.
         bind_r (int_of (VStr (count ! 1))) (\<lambda>c.
           Inr (AList.update count_key (VInt c) (AList.update number_key (VInt n) song_meta))))
       else
         bind_r (attr_text v) (\<lambda>text'.
         bind_r (getitem text' 0) (\<lambda>raw. Inr (AList.update number_key raw song_meta))))))"

definition decode_mp3 :: "string \<Rightarrow> pyval \<Rightarrow> song_meta \<Rightarrow> song_meta result" where
  "decode_mp3 key v song_meta =
     (if key = ''woas'' then
        bind_r (attr_url v) (\<lambda>u. Inr (AList.update ''url'' u song_meta))
      else if key = ''year'' then
        bind_r (attr_text v) (\<lambda>text. bind_r (getitem text 0) (\<lambda>t0.
        bind_r (year_of t0) (\<lambda>y. Inr (AList.update ''year'' y song_meta))))
      else if key = ''date'' then
        bind_r (attr_text v) (\<lambda>text. bind_r (getitem text 0) (\<lambda>t0.
        bind_r (str_of t0) (\<lambda>d. Inr (AList.update ''date'' (VStr d) song_meta))))
      else if key = ''tracknumber'' then split_number ''track_number'' ''tracks_count'' v song_meta
      else if key = ''discnumber'' then split_number ''disc_number'' ''disc_count'' v song_meta
      else store_unwrapped key (attr_text v) song_meta)"

definition decode_m4a :: "string \<Rightarrow> pyval \<Rightarrow> song_meta \<Rightarrow> song_meta result" where
  "decode_m4a key v song_meta =
     (if key = ''woas'' then
        bind_r (getitem v 0) (\<lambda>v0. bind_r (decode_utf8 v0) (\<lambda>u.
          Inr (AList.update ''url'' u song_meta)))
      else if key = ''explicit'' then
        Inr (AList.update ''explicit''
               (if truthy v then VBool (v = VList [VInt 4]) else VNone) song_meta)
      else if key = ''year'' then
        bind_r (getitem v 0) (\<lambda>v0. bind_r (year_of v0) (\<lambda>y.
          Inr (AList.update ''year'' y song_meta)))
      else if key = ''discnumber'' then
        bind_r (getitem v 0) (\<lambda>v0. bind_r (getitem v0 0) (\<lambda>n.
        bind_r (getitem v 0) (\<lambda>v0'. bind_r (getitem v0' 1) (\<lambda>c.
          Inr (AList.update ''disc_count'' c (AList.update ''disc_number'' n song_meta))))))
      else if key = ''tracknumber'' then
        bind_r (getitem v 0) (\<lambda>v0. bind_r (getitem v0 0) (\<lambda>n.
        bind_r (getitem v 0) (\<lambda>v0'. bind_r (getitem v0' 1) (\<lambda>c.
          Inr (AList.update ''tracks_count'' c (AList.update ''track_number'' n song_meta))))))
      else store_unwrapped key (Inr v) song_meta)"

definition decode_generic :: "string \<Rightarrow> pyval \<Rightarrow> song_meta \<Rightarrow> song_meta result" where
  "decode_generic key v song_meta =
     (if key = ''originaldate'' then
        bind_r (getitem v 0) (\<lambda>v0. bind_r (year_of v0) (\<lambda>y.
          Inr (AList.update ''year'' y song_meta)))
      else if key = ''tracknumber'' then
        bind_r (getitem v 0) (\<lambda>v0. bind_r (int_of v0) (\<lambda>n.
          Inr (AList.update ''track_number'' (VInt n) song_meta)))
      else if key = ''discnumber'' then
        bind_r (getitem v 0) (\<lambda>v0. bind_r (int_of v0) (\<lambda>n.
          Inr (AList.update ''disc_count'' (VInt n) song_meta)))
      else store_unwrapped key (Inr v) song_meta)"

text \<open>\<open>audio_file.get(native_key)\<close>: a stored \<open>None\<close> reads like a missing tag.\<close>

definition get_tag :: "handle \<Rightarrow> string \<Rightarrow> pyval option" where
  "get_tag audio_file native_key =
     (case map_of (tags audio_file) native_key of
        Some VNone \<Rightarrow> None
      | r \<Rightarrow> r)"

text \<open>One turn of \<open>for key in TAG_PRESET\<close>.\<close>

definition read_key :: "string \<Rightarrow> handle \<Rightarrow> string \<Rightarrow> song_meta \<Rightarrow> song_meta result" where
  "read_key suffix audio_file key song_meta =
     (let val = (if suffix = ''.m4a'' then get_tag audio_file (preset M4A_TAG_PRESET key)
                 else if suffix = ''.mp3'' then get_tag audio_file (preset MP3_TAG_PRESET key)
                 else get_tag audio_file key)
      in case val of
           None \<Rightarrow>
             (case map_of TAG_TO_SONG key of
                Some empty_key \<Rightarrow> Inr (AList.update empty_key VNone song_meta)
              | None \<Rightarrow> Inr song_meta)
         | Some v \<Rightarrow>
             if suffix = ''.mp3'' then decode_mp3 key v song_meta
             else if suffix = ''.m4a'' then decode_m4a key v song_meta
             else decode_generic key v song_meta)"

fun read_keys :: "string \<Rightarrow> handle \<Rightarrow> string list \<Rightarrow> song_meta \<Rightarrow> song_meta result" where
  "read_keys suffix audio_file [] song_meta = Inr song_meta"
| "read_keys suffix audio_file (key # keys) song_meta =
     bind_r (read_key suffix audio_file key song_meta) (read_keys suffix audio_file keys)"

text \<open>\<open>song_meta["artist"] = song_meta["artists"][0]\<close>\<close>

definition main_artist :: "song_meta \<Rightarrow> song_meta result" where
  "main_artist song_meta =
     (case map_of song_meta ''artists'' of
        None \<Rightarrow> Inl KeyError
      | Some a \<Rightarrow> bind_r (getitem a 0) (\<lambda>first. Inr (AList.update ''artist'' first song_meta)))"

definition get_file_metadata :: "file_state \<Rightarrow> string \<Rightarrow> song_meta option result" where
  "get_file_metadata file suffix =
     (case file of
        Missing \<Rightarrow> Inl OSError
      | Unreadable \<Rightarrow> Inl LoadError
      | Unrecognized \<Rightarrow> Inr None
      | Audio audio_file \<Rightarrow>
          if tags audio_file = [] then Inr None
          else bind_r (read_keys suffix audio_file (map fst TAG_PRESET) [])
                 (\<lambda>song_meta. bind_r (main_artist song_meta) (\<lambda>m. Inr (Some m))))"

section \<open>A song and a fresh handle, for the concrete instances below\<close>

definition demo_song :: song where
  "demo_song = \<lparr>name = ''Hello'', artists = [''Adele''], artist = ''Adele'',
     album_name = Some ''25'', genres = [''pop'', ''soul''], date = ''2015-10-23'',
     publisher = ''XL'', copyright_text = Some ''(C) 2015 XL'', lyrics = Some ''Hello, it is me'',
     download_url = Some ''https://youtu.be/x'', disc_number = 3, disc_count = 12,
     track_number = 1, tracks_count = 11, url = ''https://open.spotify.com/track/1'',
     explicit = True, cover_url = None\<rparr>"

definition empty_handle :: handle where
  "empty_handle = \<lparr>tags = [], pictures = []\<rparr>"

definition demo_flac :: handle where
  "demo_flac = \<lparr>tags =
      [(''artist'', VList [VStr ''Adele'']),
       (''albumartist'', VList [VStr ''Adele'']),
       (''title'', VList [VStr ''Hello'']),
       (''date'', VList [VStr ''2015-10-23'']),
       (''originaldate'', VList [VStr ''2015-10-23'']),
       (''encodedby'', VList [VStr ''XL'']),
       (''album'', VList [VStr ''25'']),
       (''genre'', VList [VStr ''pop'', VStr ''soul'']),
       (''copyright'', VList [VStr ''(C) 2015 XL'']),
       (''lyrics'', VList [VStr ''Hello, it is me'']),
       (''comment'', VList [VStr ''https://youtu.be/x'']),
       (''discnumber'', VList [VStr ''03'']),
       (''tracknumber'', VList [VStr ''01'']),
       (''woas'', VList [VStr ''https://open.spotify.com/track/1''])],
      pictures = []\<rparr>"







definition demo_mp3 :: handle where
  "demo_mp3 = \<lparr>tags =
      [(''TPE1'', VTextFrame (VList [VStr ''Adele''])),
       (''TPE2'', VTextFrame (VList [VStr ''Adele''])),
       (''TIT2'', VTextFrame (VList [VStr ''Hello''])),
       (''TDRC'', VTextFrame (VList [VStr ''2015-10-23''])),
       (''TDOR'', VTextFrame (VList [VStr ''2015-10-23''])),
       (''TENC'', VTextFrame (VList [VStr ''XL''])),
       (''TALB'', VTextFrame (VList [VStr ''25''])),
       (''TCON'', VTextFrame (VList [VStr ''pop'', VStr ''soul''])),
       (''TCOP'', VTextFrame (VList [VStr ''(C) 2015 XL''])),
       (''TRCK'', VTextFrame (VList [VStr ''1/11''])),
       (''TPOS'', VTextFrame (VList [VStr ''3/12''])),
       (''WOAS'', VUrlFrame ''https://open.spotify.com/track/1''),
       (''USLT::XXX'', VTextFrame (VStr ''Hello, it is me'')),
       (''COMM::XXX'', VTextFrame (VList [VStr ''https://youtu.be/x'']))],
      pictures = []\<rparr>"


definition demo_m4a :: handle where
  "demo_m4a = \<lparr>tags =
      [(cp # ''ART'', VList [VStr ''Adele'']),
       (''aART'', VList [VStr ''Adele'']),
       (cp # ''nam'', VList [VStr ''Hello'']),
       (cp # ''day'', VList [VStr ''2015-10-23'']),
       (''purd'', VList [VStr ''2015-10-23'']),
       (cp # ''too'', VList [VStr ''XL'']),
       (cp # ''alb'', VList [VStr ''25'']),
       (cp # ''gen'', VList [VStr ''pop'', VStr ''soul'']),
       (''cprt'', VList [VStr ''(C) 2015 XL'']),
       (cp # ''lyr'', VList [VStr ''Hello, it is me'']),
       (cp # ''cmt'', VList [VStr ''https://youtu.be/x'']),
       (''disk'', VList [VTuple [VInt 3, VInt 12]]),
       (''trkn'', VList [VTuple [VInt 1, VInt 11]]),
       (''rtng'', VList [VInt 4]),
       (''----:spotdl:WOAS'', VList [VBytes ''https://open.spotify.com/track/1''])],
      pictures = []\<rparr>"



section \<open>The tag tables encode the native keys\<close>

text \<open>
  C6 (as amended). The three tables map title to TIT2 (mp3), \<open>\<copyright>nam\<close> (m4a) and title
  (generic); artist to TPE1, \<open>\<copyright>ART\<close>, artist; tracknumber to TRCK, trkn, tracknumber;
  woas to WOAS, \<open>----:spotdl:WOAS\<close>, woas; lyrics to USLT::XXX, \<open>\<copyright>lyr\<close>, lyrics; comment
  to COMM::XXX, \<open>\<copyright>cmt\<close>, comment; explicit to NULL for mp3, rtng for m4a, and to the key
  explicit itself in the generic table, which maps every canonical key to itself.
\<close>

theorem tag_tables_native_keys:
  "map_of MP3_TAG_PRESET ''title'' = Some ''TIT2''
   \<and> map_of M4A_TAG_PRESET ''title'' = Some (CHR 0xA9 # ''nam'')
   \<and> map_of TAG_PRESET ''title'' = Some ''title''
   \<and> map_of MP3_TAG_PRESET ''artist'' = Some ''TPE1''
   \<and> map_of M4A_TAG_PRESET ''artist'' = Some (CHR 0xA9 # ''ART'')
   \<and> map_of TAG_PRESET ''artist'' = Some ''artist''
   \<and> map_of MP3_TAG_PRESET ''tracknumber'' = Some ''TRCK''
   \<and> map_of M4A_TAG_PRESET ''tracknumber'' = Some ''trkn''
   \<and> map_of TAG_PRESET ''tracknumber'' = Some ''tracknumber''
   \<and> map_of MP3_TAG_PRESET ''woas'' = Some ''WOAS''
   \<and> map_of M4A_TAG_PRESET ''woas'' = Some ''----:spotdl:WOAS''
   \<and> map_of TAG_PRESET ''woas'' = Some ''woas''
   \<and> map_of MP3_TAG_PRESET ''lyrics'' = Some ''USLT::XXX''
   \<and> map_of M4A_TAG_PRESET ''lyrics'' = Some (CHR 0xA9 # ''lyr'')
   \<and> map_of TAG_PRESET ''lyrics'' = Some ''lyrics''
   \<and> map_of MP3_TAG_PRESET ''comment'' = Some ''COMM::XXX''
   \<and> map_of M4A_TAG_PRESET ''comment'' = Some (CHR 0xA9 # ''cmt'')
   \<and> map_of TAG_PRESET ''comment'' = Some ''comment''
   \<and> map_of MP3_TAG_PRESET ''explicit'' = Some ''NULL''
   \<and> map_of M4A_TAG_PRESET ''explicit'' = Some ''rtng''
   \<and> map_of TAG_PRESET ''explicit'' = Some ''explicit''
   \<and> TAG_PRESET = map (\<lambda>key. (key, key)) (map fst M4A_TAG_PRESET)"
  by (simp add: MP3_TAG_PRESET_def M4A_TAG_PRESET_def TAG_PRESET_def cp_def)

text \<open>
  C6 as stated fails on its last part: the generic table has a mapping for explicit.
\<close>

theorem generic_explicit_counterexample:
  "\<not> (map_of TAG_PRESET ''explicit'' = None)"
  by (simp add: TAG_PRESET_def M4A_TAG_PRESET_def)

section \<open>The cover embedder gives up quietly\<close>

text \<open>
  C7. For every handle, song and format, \<open>embed_cover\<close> returns the handle unchanged, and
  raises nothing, when the song has no cover URL (\<open>None\<close> or the empty string) or when
  the fetch of the URL fails: the failure of the fetch does not reach the caller.
\<close>

theorem embed_cover_noop:
  assumes "cover_url s = None \<or> cover_url s = Some [] \<or> (\<exists>u. cover_url s = Some u \<and> fetch u = None)"
  shows "embed_cover fetch b64_picture audio_file s encoding = audio_file"
  using assms by (auto simp: embed_cover_def opt_truthy_def)

theorem embed_cover_noop_witness:
  "embed_cover (\<lambda>u. Some ''jpeg'') (\<lambda>p. []) empty_handle demo_song ''mp3'' = empty_handle
   \<and> embed_cover (\<lambda>u. None) (\<lambda>p. []) empty_handle (demo_song\<lparr>cover_url := Some ''http://x''\<rparr>) ''flac''
       = empty_handle"
  using embed_cover_noop [of demo_song "\<lambda>u. Some ''jpeg''" "\<lambda>p. []" empty_handle "''mp3''"]
    embed_cover_noop [of "demo_song\<lparr>cover_url := Some ''http://x''\<rparr>" "\<lambda>u. None" "\<lambda>p. []" empty_handle "''flac''"]
  by (simp add: demo_song_def)

section \<open>Files that do not load\<close>

text \<open>
  C8. On a file that is missing, cannot be loaded or is not recognised, \<open>embed_metadata\<close>
  raises MetadataError and the file is as it was; \<open>get_file_metadata\<close> raises OSError
  when the path does not exist, and returns \<open>None\<close> when the file is not recognised or
  its handle has no tags. The reader has no access to the file other than loading it.
\<close>

theorem load_failures:
  "(file = Missing \<or> file = Unreadable \<or> file = Unrecognized
      \<longrightarrow> embed_metadata file s suffix = (Inl MetadataError, file))
   \<and> get_file_metadata Missing suffix = Inl OSError
   \<and> get_file_metadata Unrecognized suffix = Inr None
   \<and> (tags audio_file = [] \<longrightarrow> get_file_metadata (Audio audio_file) suffix = Inr None)"
  by (auto simp: embed_metadata_def get_file_metadata_def)

theorem load_failures_witness:
  "embed_metadata Unrecognized demo_song ''.mp3'' = (Inl MetadataError, Unrecognized)
   \<and> get_file_metadata (Audio empty_handle) ''.mp3'' = Inr None"
  using load_failures [of Unrecognized demo_song "''.mp3''" empty_handle]
  by (simp add: empty_handle_def)

section \<open>What the writer leaves alone\<close>















section \<open>Decimal strings: \<open>int(str(n).zfill(w)) = n\<close>\<close>

lemma of_char_digit_char: "d < 10 \<Longrightarrow> (of_char (digit_char d) :: nat) = 48 + d"
  by (simp add: digit_char_def)

lemma is_digit_digit_char: "d < 10 \<Longrightarrow> is_digit (digit_char d)"
  by (simp add: is_digit_def of_char_digit_char)

lemma digit_val_digit_char: "d < 10 \<Longrightarrow> digit_val (digit_char d) = d"
  by (simp add: digit_val_def of_char_digit_char)

lemma digits_of_all_digits: "c \<in> set (digits_of n) \<Longrightarrow> is_digit c"
proof (induction n arbitrary: c rule: digits_of.induct)
  case (1 n)
  show ?case
  proof (cases "n < 10")
    case True
    with "1.prems" show ?thesis by (simp add: digits_of.simps [of n] is_digit_digit_char)
  next
    case False
    with "1.prems" have "c \<in> set (digits_of (n div 10)) \<or> c = digit_char (n mod 10)"
      by (auto simp: digits_of.simps [of n])
    with "1.IH" [OF False] show ?thesis by (auto simp: is_digit_digit_char)
  qed
qed

lemma digits_of_not_empty: "digits_of n \<noteq> []"
  by (simp add: digits_of.simps [of n])

lemma lit_val_all_digits_snoc:
  "\<forall>c\<in>set xs. is_digit c \<Longrightarrow> is_digit d \<Longrightarrow> lit_val (xs @ [d]) = 10 * lit_val xs + digit_val d"
  by (simp add: lit_val_def)

lemma lit_val_digits_of: "lit_val (digits_of n) = n"
proof (induction n rule: digits_of.induct)
  case (1 n)
  show ?case
  proof (cases "n < 10")
    case True
    then show ?thesis
      by (simp add: digits_of.simps [of n] lit_val_def is_digit_digit_char digit_val_digit_char)
  next
    case False
    have "lit_val (digits_of (n div 10) @ [digit_char (n mod 10)])
            = 10 * lit_val (digits_of (n div 10)) + digit_val (digit_char (n mod 10))"
      by (rule lit_val_all_digits_snoc) (auto simp: digits_of_all_digits is_digit_digit_char)
    with False "1.IH" [OF False] show ?thesis
      by (simp add: digits_of.simps [of n] digit_val_digit_char)
  qed
qed

lemma lit_ok_all_digits: "\<forall>c\<in>set xs. is_digit c \<Longrightarrow> lit_ok True xs"
  by (induction xs) auto

lemma lit_ok_digits: "xs \<noteq> [] \<Longrightarrow> \<forall>c\<in>set xs. is_digit c \<Longrightarrow> lit_ok b xs"
  by (cases xs) (auto simp: lit_ok_all_digits)

lemma zero_is_digit: "is_digit CHR ''0''"
  by (simp add: is_digit_def)

lemma lit_val_zeros: "lit_val (replicate k CHR ''0'' @ xs) = lit_val xs"
proof -
  have "foldl (\<lambda>acc c. 10 * acc + digit_val c) 0 (replicate k CHR ''0'') = 0"
    by (induction k) (simp_all add: digit_val_def)
  then show ?thesis by (simp add: lit_val_def zero_is_digit)
qed

lemma digit_not_space: "is_digit c \<Longrightarrow> \<not> is_space c"
  by (auto simp: is_digit_def is_space_def)

lemma digit_not_sign: "is_digit c \<Longrightarrow> c \<noteq> CHR ''-'' \<and> c \<noteq> CHR ''+'' "
  by (auto simp: is_digit_def)

lemma strip_id: "s \<noteq> [] \<Longrightarrow> \<not> is_space (hd s) \<Longrightarrow> \<not> is_space (last s) \<Longrightarrow> strip s = s"
proof -
  assume ne: "s \<noteq> []" and h: "\<not> is_space (hd s)" and l: "\<not> is_space (last s)"
  from ne h have a: "dropWhile is_space s = s" by (cases s) auto
  from ne l have "dropWhile is_space (rev s) = rev s" by (cases "rev s") (auto simp: hd_rev)
  with a show ?thesis by (simp add: strip_def)
qed

text \<open>An optional minus sign, then padding zeros, then the digits of a number.\<close>

lemma py_int_padded_nonneg: "py_int (replicate k CHR ''0'' @ digits_of n) = Some (int n)"
proof -
  let ?s = "replicate k CHR ''0'' @ digits_of n"
  have dig: "\<forall>c\<in>set ?s. is_digit c" by (auto simp: digits_of_all_digits zero_is_digit)
  have ne: "?s \<noteq> []" by (simp add: digits_of_not_empty)
  then obtain c r where cr: "?s = c # r" by (cases ?s) auto
  from ne have "hd ?s \<in> set ?s" by (rule hd_in_set)
  with dig have "is_digit (hd ?s)" by (rule bspec)
  then have h: "\<not> is_space (hd ?s)" by (rule digit_not_space)
  from ne have "last ?s \<in> set ?s" by (rule last_in_set)
  with dig have "is_digit (last ?s)" by (rule bspec)
  then have "\<not> is_space (last ?s)" by (rule digit_not_space)
  note h this
  with ne have st: "strip ?s = ?s" by (rule strip_id)
  from dig cr have "is_digit c" by (metis list.set_intros(1))
  then have ns: "c \<noteq> CHR ''-''" "c \<noteq> CHR ''+''" using digit_not_sign by auto
  have ok: "lit_ok False ?s" using ne dig by (rule lit_ok_digits)
  have v: "lit_val ?s = n" by (simp add: lit_val_zeros lit_val_digits_of)
  show ?thesis
    unfolding py_int_def st using cr ns ok v by simp
qed


lemma py_int_padded_neg:
  "py_int (CHR ''-'' # replicate k CHR ''0'' @ digits_of n) = Some (- int n)"
proof -
  let ?r = "replicate k CHR ''0'' @ digits_of n"
  have dig: "\<forall>c\<in>set ?r. is_digit c" by (auto simp: digits_of_all_digits zero_is_digit)
  have ne: "?r \<noteq> []" by (simp add: digits_of_not_empty)
  then have "last ?r \<in> set ?r" by (rule last_in_set)
  with dig have "is_digit (last ?r)" by (rule bspec)
  then have "\<not> is_space (last ?r)" by (rule digit_not_space)
  with ne have "\<not> is_space (last (CHR ''-'' # ?r))" by (simp add: digits_of_not_empty)
  moreover have "\<not> is_space (hd (CHR ''-'' # ?r))" by (simp add: is_space_def)
  ultimately have st: "strip (CHR ''-'' # ?r) = CHR ''-'' # ?r" by (intro strip_id) simp_all
  have ok: "lit_ok False ?r" using ne dig by (rule lit_ok_digits)
  have v: "lit_val ?r = n" by (simp add: lit_val_zeros lit_val_digits_of)
  show ?thesis unfolding py_int_def st using ok v by simp
qed

lemma zfill_py_str:
  "zfill (py_str i) w =
     (if i < 0 then CHR ''-'' # replicate (w - length (py_str i)) CHR ''0'' @ digits_of (nat (- i))
      else replicate (w - length (py_str i)) CHR ''0'' @ digits_of (nat i))"
proof (cases "i < 0")
  case True
  then show ?thesis by (simp add: zfill_def py_str_def)
next
  case False
  obtain c r where cr: "digits_of (nat i) = c # r"
    using digits_of_not_empty [of "nat i"] by (cases "digits_of (nat i)") auto
  then have "c \<in> set (digits_of (nat i))" by simp
  then have "is_digit c" by (rule digits_of_all_digits)
  then have "c \<noteq> CHR ''-''" "c \<noteq> CHR ''+''" using digit_not_sign by auto
  with False cr show ?thesis by (simp add: zfill_def py_str_def)
qed

lemma py_int_zfill: "py_int (zfill (py_str i) w) = Some i"
  by (simp add: zfill_py_str py_int_padded_neg py_int_padded_nonneg)

lemma py_int_py_str: "py_int (py_str i) = Some i"
  using py_int_zfill [of i 0] by (simp add: zfill_def)

lemma length_zfill: "length (zfill s w) = max (length s) w"
  by (auto simp: zfill_def split: list.splits)

section \<open>What a handle holds after the assignments\<close>

lemma setitems_lookup:
  assumes "enc \<noteq> ''mp3''"
  shows "\<exists>h'. setitems enc kvs h = Inr h' \<and> pictures h' = pictures h
           \<and> (\<forall>k. map_of (tags h') k =
                 (case map_of (rev kvs) k of
                    Some v \<Rightarrow> Some ((if enc = ''m4a'' then mp4_value else vorbis_value) v)
                  | None \<Rightarrow> map_of (tags h) k))"
proof (induction kvs arbitrary: h)
  case Nil
  then show ?case by simp
next
  case (Cons kv kvs)
  obtain key v where kv: "kv = (key, v)" by (cases kv)
  let ?h1 = "h\<lparr>tags := AList.update key ((if enc = ''m4a'' then mp4_value else vorbis_value) v) (tags h)\<rparr>"
  from assms have s1: "setitem enc key v h = Inr ?h1" by (simp add: setitem_def)
  from Cons.IH [of ?h1] obtain h' where h': "setitems enc kvs ?h1 = Inr h'"
    "pictures h' = pictures ?h1"
    "\<And>k. map_of (tags h') k =
        (case map_of (rev kvs) k of
           Some v \<Rightarrow> Some ((if enc = ''m4a'' then mp4_value else vorbis_value) v)
         | None \<Rightarrow> map_of (tags ?h1) k)"
    by blast
  have "setitems enc (kv # kvs) h = Inr h'" using s1 h'(1) kv by (simp add: bind_r_def)
  moreover have "pictures h' = pictures h" using h'(2) by simp
  moreover have "map_of (tags h') k =
        (case map_of (rev (kv # kvs)) k of
           Some v \<Rightarrow> Some ((if enc = ''m4a'' then mp4_value else vorbis_value) v)
         | None \<Rightarrow> map_of (tags h) k)" for k
    unfolding h'(3) [of k] kv
    by (simp add: map_add_def update_conv' split: option.splits)
  ultimately show ?case by blast
qed

lemma rev_guard: "rev (if c then [a] else []) = (if c then [a] else [])"
  by simp

lemma map_of_guard: "map_of (if c then [(k', v)] else []) k = (if c \<and> k = k' then Some v else None)"
  by simp

lemma generic_number_lookup:
  assumes "enc = ''flac'' \<or> enc = ''ogg'' \<or> enc = ''opus''"
  shows "map_of (rev (assignments s enc)) ''discnumber''
           = Some (VStr (zfill (py_str (disc_number s)) (length (py_str (disc_count s)))))
         \<and> map_of (rev (assignments s enc)) ''tracknumber''
           = Some (VStr (zfill (py_str (track_number s)) (length (py_str (tracks_count s)))))"
  using assms
  by (elim disjE)
    (simp_all add: assignments_def Let_def preset_def TAG_PRESET_def M4A_TAG_PRESET_def
      rev_guard map_of_guard map_add_def)

lemma pad_3_of_12: "zfill (py_str 3) (length (py_str 12)) = ''03''"
  by code_simp

lemma pad_3_of_120: "zfill (py_str 3) (length (py_str 120)) = ''003''"
  by code_simp

text \<open>
  C4. For flac, ogg and opus the writer assigns the disc number and the track number as
  decimal strings, zero-filled to the width of the decimal disc count and track count:
  the handle holds the string (in the one-element list of a Vorbis comment), its length is
  the larger of the two widths, and it reads back as the number. Disc 3 of 12 is stored
  as \<open>"03"\<close>, disc 3 of 120 as \<open>"003"\<close>.
\<close>

theorem generic_zero_padding:
  assumes "encoding \<in> set [''flac'', ''ogg'', ''opus'']"
  shows "\<exists>written.
           embed_metadata (Audio audio_file) s (CHR ''.'' # encoding) = (Inr (), Audio written)
           \<and> map_of (tags written) ''discnumber''
               = Some (VList [VStr (zfill (py_str (disc_number s)) (length (py_str (disc_count s))))])
           \<and> map_of (tags written) ''tracknumber''
               = Some (VList [VStr (zfill (py_str (track_number s)) (length (py_str (tracks_count s))))])
           \<and> length (zfill (py_str (disc_number s)) (length (py_str (disc_count s))))
               = max (length (py_str (disc_number s))) (length (py_str (disc_count s)))
           \<and> length (zfill (py_str (track_number s)) (length (py_str (tracks_count s))))
               = max (length (py_str (track_number s))) (length (py_str (tracks_count s)))
           \<and> py_int (zfill (py_str (disc_number s)) (length (py_str (disc_count s)))) = Some (disc_number s)
           \<and> py_int (zfill (py_str (track_number s)) (length (py_str (tracks_count s)))) = Some (track_number s)"
proof -
  from assms have enc: "encoding = ''flac'' \<or> encoding = ''ogg'' \<or> encoding = ''opus''" by simp
  then have ne: "encoding \<noteq> ''mp3''" "encoding \<noteq> ''m4a''" by auto
  from setitems_lookup [OF ne(1), of "assignments s encoding" audio_file]
  obtain h' where h': "setitems encoding (assignments s encoding) audio_file = Inr h'"
    and look: "\<And>k. map_of (tags h') k =
        (case map_of (rev (assignments s encoding)) k of
           Some v \<Rightarrow> Some ((if encoding = ''m4a'' then mp4_value else vorbis_value) v)
         | None \<Rightarrow> map_of (tags audio_file) k)"
    by blast
  have res: "embed_metadata (Audio audio_file) s (CHR ''.'' # encoding) = (Inr (), Audio h')"
    using h' ne by (simp add: embed_metadata_def)
  from generic_number_lookup [OF enc, of s] ne
  have "map_of (tags h') ''discnumber''
          = Some (VList [VStr (zfill (py_str (disc_number s)) (length (py_str (disc_count s))))])"
    and "map_of (tags h') ''tracknumber''
          = Some (VList [VStr (zfill (py_str (track_number s)) (length (py_str (tracks_count s))))])"
    by (simp_all add: look vorbis_value_def)
  with res show ?thesis by (simp add: length_zfill py_int_zfill)
qed

theorem generic_zero_padding_witness:
  "(\<exists>written. embed_metadata (Audio empty_handle) demo_song ''.flac'' = (Inr (), Audio written)
      \<and> map_of (tags written) ''discnumber'' = Some (VList [VStr ''03'']))
   \<and> (\<exists>written. embed_metadata (Audio empty_handle) (demo_song\<lparr>disc_count := 120\<rparr>) ''.ogg''
                   = (Inr (), Audio written)
      \<and> map_of (tags written) ''discnumber'' = Some (VList [VStr ''003'']))"
proof -
  have a: "disc_number demo_song = 3" "disc_count demo_song = 12" by (simp_all add: demo_song_def)
  from generic_zero_padding [of "''flac''" empty_handle demo_song]
  have "\<exists>written. embed_metadata (Audio empty_handle) demo_song ''.flac'' = (Inr (), Audio written)
      \<and> map_of (tags written) ''discnumber'' = Some (VList [VStr ''03''])"
    unfolding a pad_3_of_12 by auto
  moreover from generic_zero_padding [of "''ogg''" empty_handle "demo_song\<lparr>disc_count := 120\<rparr>"]
  have "\<exists>written. embed_metadata (Audio empty_handle) (demo_song\<lparr>disc_count := 120\<rparr>) ''.ogg''
                   = (Inr (), Audio written)
      \<and> map_of (tags written) ''discnumber'' = Some (VList [VStr ''003''])"
    using pad_3_of_120 by (auto simp: a)
  ultimately show ?thesis by blast
qed

section \<open>Reading the tags back\<close>

lemma demo_flac_written:
  "embed_metadata (Audio empty_handle) demo_song ''.flac'' = (Inr (), Audio demo_flac)"
  by code_simp































section \<open>Track and disc numbers of an MP3 file\<close>

lemma demo_mp3_written:
  "embed_metadata (Audio empty_handle) demo_song ''.mp3'' = (Inr (), Audio demo_mp3)"
  by code_simp



lemma split_on_no_sep: "sep \<notin> set s \<Longrightarrow> split_on sep s = [s]"
  by (induction s) auto





section \<open>The explicit flag of an M4A file\<close>

lemma demo_m4a_written:
  "embed_metadata (Audio empty_handle) demo_song ''.m4a'' = (Inr (), Audio demo_m4a)"
  by code_simp












section \<open>UTF-8 and the number texts read back\<close>

lemma utf8_decode_ascii:
  "(of_char b :: nat) < 128 \<Longrightarrow> utf8_decode (b # r) = map_option ((#) b) (utf8_decode r)"
  by (cases r) simp_all

lemma utf8_decode_pair:
  assumes "128 \<le> (n::nat)" "n < 256"
  shows "utf8_decode (char_of (192 + n div 64) # char_of (128 + n mod 64) # r)
           = map_option ((#) (char_of n)) (utf8_decode r)"
proof -
  from assms(1) have "2 \<le> n div 64" by (simp add: less_eq_div_iff_mult_less_eq)
  moreover from assms(2) have "n div 64 < 4" by (simp add: div_less_iff_less_mult)
  ultimately have d: "n div 64 = 2 \<or> n div 64 = 3" by linarith
  have m: "n mod 64 < 64" by simp
  from d have a: "(of_char (char_of (192 + n div 64) :: char) :: nat) = 192 + n div 64"
    by (elim disjE) simp_all
  from m have b: "(of_char (char_of (128 + n mod 64) :: char) :: nat) = 128 + n mod 64" by simp
  have c: "(192 + n div 64 - 192) * 64 + (128 + n mod 64 - 128) = n" by simp
  have f1: "\<not> 192 + n div 64 < 128" by simp
  from d have f2: "192 + n div 64 = 194 \<or> 192 + n div 64 = 195" by (elim disjE) simp_all
  from m have f3: "128 \<le> 128 + n mod 64 \<and> 128 + n mod 64 < 192" by simp
  have "utf8_decode (char_of (192 + n div 64) # char_of (128 + n mod 64) # r)
          = map_option ((#) (char_of ((192 + n div 64 - 192) * 64 + (128 + n mod 64 - 128))))
              (utf8_decode r)"
    by (subst utf8_decode.simps(3)) (simp only: Let_def a b f1 f2 f3 if_True if_False simp_thms)
  then show ?thesis by (simp only: c)
qed

lemma utf8_roundtrip: "utf8_decode (utf8_encode s) = Some s"
proof (induction s)
  case Nil
  then show ?case by (simp add: utf8_encode_def)
next
  case (Cons c s)
  have e: "utf8_encode (c # s) =
      (if (of_char c :: nat) < 128 then [c]
       else [char_of (192 + (of_char c :: nat) div 64), char_of (128 + (of_char c :: nat) mod 64)])
      @ utf8_encode s"
    by (simp add: utf8_encode_def Let_def)
  show ?case
  proof (cases "(of_char c :: nat) < 128")
    case True
    with e Cons.IH show ?thesis by (simp add: utf8_decode_ascii)
  next
    case False
    have lt: "(of_char c :: nat) < 256" by simp
    from False have ge: "128 \<le> (of_char c :: nat)" by simp
    from e False utf8_decode_pair [OF ge lt, of "utf8_encode s"] Cons.IH
    show ?thesis by simp
  qed
qed

lemma split_on_at_sep:
  "sep \<notin> set a \<Longrightarrow> split_on sep (a @ sep # b) = a # split_on sep b"
  by (induction a) auto

lemma slash_not_in_py_str: "CHR ''/'' \<notin> set (py_str i)"
proof -
  have "\<not> is_digit CHR ''/''" by (simp add: is_digit_def)
  then have "CHR ''/'' \<notin> set (digits_of n)" for n using digits_of_all_digits by blast
  then show ?thesis by (simp add: py_str_def)
qed

lemma split_number_text:
  "split_on CHR ''/'' (py_str n @ ''/'' @ py_str c) = [py_str n, py_str c]"
  using split_on_at_sep [OF slash_not_in_py_str, of n "py_str c"]
  by (simp add: split_on_no_sep slash_not_in_py_str)

lemma unwrap1_single: "unwrap1 (VList [v]) = Inr v"
  by (simp add: unwrap1_def bind_r_def)

end
